theory Spec2Isabelle
  imports Complex_Main "HOL-Library.Sublist"
begin

section \<open>Values handed over by the upstream feed\<close>

text \<open>
  The records that \<^verbatim>\<open>db_manager.py\<close> receives are Python dictionaries decoded from JSON.
  The model covers the scalar JSON values and objects; a dictionary is an association
  list read with \<open>map_of\<close>. Lists and floating point numbers are outside the modelled
  universe.
\<close>

datatype pyval =
    PNone
  | PBool bool
  | PInt int
  | PStr string
  | PDict "(string \<times> pyval) list"

type_synonym pydict = "(string \<times> pyval) list"

text \<open>Python truth value testing, as used by the \<^verbatim>\<open>or\<close> operator.\<close>

fun truthy :: "pyval \<Rightarrow> bool" where
  "truthy PNone = False"
| "truthy (PBool b) = b"
| "truthy (PInt n) = (n \<noteq> 0)"
| "truthy (PStr s) = (s \<noteq> [])"
| "truthy (PDict d) = (d \<noteq> [])"

text \<open>\<^verbatim>\<open>a or b\<close>: the left operand when it is truthy, otherwise the right one.\<close>

definition py_or :: "pyval \<Rightarrow> pyval \<Rightarrow> pyval" where
  "py_or a b = (if truthy a then a else b)"

text \<open>\<^verbatim>\<open>d.get(k)\<close> on a dictionary: the value, or \<^verbatim>\<open>None\<close> for a missing key.\<close>

definition dict_get :: "pydict \<Rightarrow> string \<Rightarrow> pyval" where
  "dict_get d k = (case map_of d k of None \<Rightarrow> PNone | Some v \<Rightarrow> v)"

section \<open>Errors\<close>

text \<open>
  Errors raised by the driver or by the database engine while a statement runs
  (all of them are subclasses of Python's \<^verbatim>\<open>Exception\<close>).
\<close>

datatype dberror =
    NotNullViolation
  | UniqueViolation
  | ForeignKeyViolation
  | NumericValueOutOfRange
  | InvalidTextRepresentation
  | DatatypeMismatch
  | StringDataRightTruncation
  | DivisionByZero
  | CannotAdapt
  | OperationalError

datatype exc =
    KeyError string
  | AttributeError
  | DBError dberror

datatype 'a outcome = Returned 'a | Raised exc

section \<open>The persisted schema\<close>

text \<open>
  \<^verbatim>\<open>companies(id INT PRIMARY KEY, name VARCHAR(255) UNIQUE NOT NULL, url TEXT)\<close> and
  \<^verbatim>\<open>vacancies(id INT PRIMARY KEY, company_id INT REFERENCES companies(id), name VARCHAR(255),
  salary_from INT, salary_to INT, currency VARCHAR(10), url TEXT)\<close>.
  A nullable column is an option; a table is the list of its rows in insertion order.
\<close>

record company_row =
  c_id :: int
  c_name :: string
  c_url :: "string option"

record vacancy_row =
  v_id :: int
  v_company_id :: "int option"
  v_name :: "string option"
  v_salary_from :: "int option"
  v_salary_to :: "int option"
  v_currency :: "string option"
  v_url :: "string option"

record db =
  companies :: "company_row list"
  vacancies :: "vacancy_row list"


section \<open>Passing Python values into typed columns\<close>

definition int4_min :: int where "int4_min = - 2147483648"
definition int4_max :: int where "int4_max = 2147483647"

definition in_int4 :: "int \<Rightarrow> bool" where
  "in_int4 n = (int4_min \<le> n \<and> n \<le> int4_max)"

definition is_digit :: "char \<Rightarrow> bool" where
  "is_digit c = (48 \<le> (of_char c :: nat) \<and> (of_char c :: nat) \<le> 57)"

definition digit_val :: "char \<Rightarrow> int" where
  "digit_val c = int (of_char c :: nat) - 48"

definition digits_val :: "string \<Rightarrow> int" where
  "digits_val s = foldl (\<lambda>acc c. 10 * acc + digit_val c) 0 s"

definition is_space :: "char \<Rightarrow> bool" where
  "is_space c = ((of_char c :: nat) = 32 \<or> (9 \<le> (of_char c :: nat) \<and> (of_char c :: nat) \<le> 13))"

definition strip :: "string \<Rightarrow> string" where
  "strip s = rev (dropWhile is_space (rev (dropWhile is_space s)))"

text \<open>
  A quoted literal assigned to an \<^verbatim>\<open>INT\<close> column goes through the engine's integer
  input: white space around the number is skipped, then an optional sign and at
  least one decimal digit must make up the rest. (Engine versions from 16 on also
  read hexadecimal, octal and binary numbers and underscores between digits; those
  notations are rejected here, as by the earlier versions.)
\<close>

definition parse_signed :: "string \<Rightarrow> int option" where
  "parse_signed s =
     (case s of
        [] \<Rightarrow> None
      | c # r \<Rightarrow>
          if c = CHR ''-'' then (if r \<noteq> [] \<and> list_all is_digit r then Some (- digits_val r) else None)
          else if c = CHR ''+'' then (if r \<noteq> [] \<and> list_all is_digit r then Some (digits_val r) else None)
          else if list_all is_digit s then Some (digits_val s) else None)"

definition parse_int :: "string \<Rightarrow> int option" where
  "parse_int s = parse_signed (strip s)"

definition check_int4 :: "int \<Rightarrow> dberror + int option" where
  "check_int4 n = (if in_int4 n then Inr (Some n) else Inl NumericValueOutOfRange)"

fun to_int4 :: "pyval \<Rightarrow> dberror + int option" where
  "to_int4 PNone = Inr None"
| "to_int4 (PBool b) = Inl DatatypeMismatch"
| "to_int4 (PInt n) = check_int4 n"
| "to_int4 (PStr s) =
     (if CHR 0x00 \<in> set s then Inl CannotAdapt
      else case parse_int s of None \<Rightarrow> Inl InvalidTextRepresentation | Some n \<Rightarrow> check_int4 n)"
| "to_int4 (PDict d) = Inl CannotAdapt"

fun show_nat :: "nat \<Rightarrow> string" where
  "show_nat n =
     (if n < 10 then [char_of (48 + n)] else show_nat (n div 10) @ [char_of (48 + n mod 10)])"

definition show_int :: "int \<Rightarrow> string" where
  "show_int i = (if i < 0 then CHR ''-'' # show_nat (nat (- i)) else show_nat (nat i))"

text \<open>
  Text columns: \<open>cap\<close> is the declared length of a \<^verbatim>\<open>VARCHAR\<close> (\<open>None\<close> for \<^verbatim>\<open>TEXT\<close>).
  A value that is too long is rejected unless the excess is blanks, which are cut off.
  The driver refuses a string with a NUL character; numbers and booleans are stored
  in their textual form.
\<close>

definition fit_text :: "nat option \<Rightarrow> string \<Rightarrow> dberror + string option" where
  "fit_text cap s =
     (case cap of
        None \<Rightarrow> Inr (Some s)
      | Some n \<Rightarrow>
          if length s \<le> n then Inr (Some s)
          else if list_all (\<lambda>c. c = CHR '' '') (drop n s) then Inr (Some (take n s))
          else Inl StringDataRightTruncation)"

fun to_text :: "nat option \<Rightarrow> pyval \<Rightarrow> dberror + string option" where
  "to_text cap PNone = Inr None"
| "to_text cap (PBool b) = fit_text cap (if b then ''true'' else ''false'')"
| "to_text cap (PInt n) = fit_text cap (show_int n)"
| "to_text cap (PStr s) = (if CHR 0x00 \<in> set s then Inl CannotAdapt else fit_text cap s)"
| "to_text cap (PDict d) = Inl CannotAdapt"

text \<open>Sequencing of steps that may fail: the first error ends the evaluation.\<close>

definition bind_err :: "'e + 'a \<Rightarrow> ('a \<Rightarrow> 'e + 'b) \<Rightarrow> 'e + 'b" where
  "bind_err m f = (case m of Inl e \<Rightarrow> Inl e | Inr x \<Rightarrow> f x)"

section \<open>The insert statements\<close>

text \<open>
  \<^verbatim>\<open>INSERT INTO companies (id, name, url) VALUES (%s, %s, %s) ON CONFLICT (id) DO NOTHING\<close>.
  The values are converted to the column types, the not-null constraints are checked,
  a row with the same identifier makes the statement do nothing, and only then the
  uniqueness of the name decides between an error and the new row.
\<close>

definition pg_insert_company :: "pyval \<times> pyval \<times> pyval \<Rightarrow> db \<Rightarrow> dberror + db" where
  "pg_insert_company ps d =
     (case ps of (pid, pname, purl) \<Rightarrow>
        bind_err (to_int4 pid) (\<lambda>i.
        bind_err (to_text (Some 255) pname) (\<lambda>n.
        bind_err (to_text None purl) (\<lambda>u.
          case i of
            None \<Rightarrow> Inl NotNullViolation
          | Some i' \<Rightarrow>
              (case n of
                 None \<Rightarrow> Inl NotNullViolation
               | Some n' \<Rightarrow>
                   if i' \<in> set (map c_id (companies d)) then Inr d
                   else if n' \<in> set (map c_name (companies d)) then Inl UniqueViolation
                   else Inr (d\<lparr>companies :=
                               companies d @ [\<lparr>c_id = i', c_name = n', c_url = u\<rparr>]\<rparr>))))))"

text \<open>
  \<^verbatim>\<open>INSERT INTO vacancies (id, company_id, name, salary_from, salary_to, currency, url)
  VALUES (...) ON CONFLICT (id) DO NOTHING\<close>. A new row must reference an existing
  company unless its company identifier is null.
\<close>

type_synonym vacancy_params = "pyval \<times> int \<times> pyval \<times> pyval \<times> pyval \<times> pyval \<times> pyval"

definition pg_insert_vacancy :: "vacancy_params \<Rightarrow> db \<Rightarrow> dberror + db" where
  "pg_insert_vacancy ps d =
     (case ps of (pid, cid, pname, pfrom, pto, pcur, purl) \<Rightarrow>
        bind_err (to_int4 pid) (\<lambda>i.
        bind_err (check_int4 cid) (\<lambda>c.
        bind_err (to_text (Some 255) pname) (\<lambda>n.
        bind_err (to_int4 pfrom) (\<lambda>sf.
        bind_err (to_int4 pto) (\<lambda>st.
        bind_err (to_text (Some 10) pcur) (\<lambda>cur.
        bind_err (to_text None purl) (\<lambda>u.
          case i of
            None \<Rightarrow> Inl NotNullViolation
          | Some i' \<Rightarrow>
              if i' \<in> set (map v_id (vacancies d)) then Inr d
              else if (case c of None \<Rightarrow> False
                       | Some c' \<Rightarrow> c' \<notin> set (map c_id (companies d)))
                then Inl ForeignKeyViolation
              else Inr (d\<lparr>vacancies :=
                          vacancies d @
                            [\<lparr>v_id = i', v_company_id = c, v_name = n, v_salary_from = sf,
                              v_salary_to = st, v_currency = cur, v_url = u\<rparr>]\<rparr>)))))))))"

section \<open>The writer methods\<close>

text \<open>
  What a method can change: the stored tables and the diagnostic stream (standard
  output). The two fixed message prefixes printed by \<^verbatim>\<open>insert_vacancy\<close> are the
  constructors of \<open>log_line\<close>; each carries the value that is formatted after it.
\<close>

datatype log_line = ErrorLine exc | RecordLine pydict

record world =
  store :: db
  out :: "log_line list"

text \<open>\<^verbatim>\<open>d[k]\<close>: a missing key raises \<^verbatim>\<open>KeyError\<close>.\<close>

definition py_index :: "pydict \<Rightarrow> string \<Rightarrow> exc + pyval" where
  "py_index d k = (case map_of d k of None \<Rightarrow> Inl (KeyError k) | Some v \<Rightarrow> Inr v)"

definition db_exc :: "dberror + 'a \<Rightarrow> exc + 'a" where
  "db_exc r = (case r of Inl e \<Rightarrow> Inl (DBError e) | Inr x \<Rightarrow> Inr x)"

definition insert_company :: "pydict \<Rightarrow> world \<Rightarrow> unit outcome \<times> world" where
  "insert_company company w =
     (case bind_err (py_index company ''id'') (\<lambda>i.
           bind_err (py_index company ''name'') (\<lambda>n.
           bind_err (py_index company ''alternate_url'') (\<lambda>u.
             db_exc (pg_insert_company (i, n, u) (store w))))) of
        Inl e \<Rightarrow> (Raised e, w)
      | Inr d' \<Rightarrow> (Returned (), w\<lparr>store := d'\<rparr>))"

definition required_keys :: "string list" where
  "required_keys = [''id'', ''name'', ''alternate_url'']"

text \<open>\<^verbatim>\<open>all(key in vacancy for key in required_keys)\<close>\<close>

definition has_required :: "pydict \<Rightarrow> bool" where
  "has_required vacancy = list_all (\<lambda>key. map_of vacancy key \<noteq> None) required_keys"

text \<open>
  The salary lines before the \<^verbatim>\<open>try\<close> block. After \<^verbatim>\<open>vacancy.get('salary') or {}\<close> the
  value is a dictionary or a truthy value of another type, on which \<^verbatim>\<open>.get\<close> raises
  \<^verbatim>\<open>AttributeError\<close>.
\<close>

definition salary_fields :: "pydict \<Rightarrow> exc + (pyval \<times> pyval \<times> pyval)" where
  "salary_fields vacancy =
     (case py_or (dict_get vacancy ''salary'') (PDict []) of
        PDict salary \<Rightarrow>
          Inr (py_or (dict_get salary ''from'') (PInt 0),
               py_or (dict_get salary ''to'') (PInt 0),
               py_or (dict_get salary ''currency'') (PStr ''RUR''))
      | _ \<Rightarrow> Inl AttributeError)"

text \<open>
  The body of the \<^verbatim>\<open>try\<close> block: the parameter tuple is built from left to right and
  the statement is executed. \<open>exec\<close> stands for the execution of the statement by the
  driver and the engine.
\<close>

definition try_body ::
  "(vacancy_params \<Rightarrow> db \<Rightarrow> dberror + db) \<Rightarrow> pydict \<Rightarrow> int \<Rightarrow> pyval \<times> pyval \<times> pyval \<Rightarrow> db
     \<Rightarrow> exc + db" where
  "try_body exec vacancy company_id sal d =
     (case sal of (salary_from, salary_to, currency) \<Rightarrow>
        bind_err (py_index vacancy ''id'') (\<lambda>i.
        bind_err (py_index vacancy ''name'') (\<lambda>n.
        bind_err (py_index vacancy ''alternate_url'') (\<lambda>u.
          db_exc (exec (i, company_id, n, salary_from, salary_to, currency, u) d)))))"

definition insert_vacancy_on ::
  "(vacancy_params \<Rightarrow> db \<Rightarrow> dberror + db) \<Rightarrow> pydict \<Rightarrow> int \<Rightarrow> world
     \<Rightarrow> unit outcome \<times> world" where
  "insert_vacancy_on exec vacancy company_id w =
     (if \<not> has_required vacancy then (Returned (), w)
      else
        case salary_fields vacancy of
          Inl e \<Rightarrow> (Raised e, w)
        | Inr sal \<Rightarrow>
            (case try_body exec vacancy company_id sal (store w) of
               Inr d' \<Rightarrow> (Returned (), w\<lparr>store := d'\<rparr>)
             | Inl e \<Rightarrow>
                 (Returned (), w\<lparr>out := out w @ [ErrorLine e, RecordLine vacancy]\<rparr>)))"

definition insert_vacancy :: "pydict \<Rightarrow> int \<Rightarrow> world \<Rightarrow> unit outcome \<times> world" where
  "insert_vacancy = insert_vacancy_on pg_insert_vacancy"

section \<open>The read queries\<close>

text \<open>
  Arithmetic on \<^verbatim>\<open>INT\<close> columns: a result outside the 32-bit range is an error, and
  the quotient of two integers is cut towards zero.
\<close>

definition int4_add :: "int \<Rightarrow> int \<Rightarrow> dberror + int" where
  "int4_add a b = (if in_int4 (a + b) then Inr (a + b) else Inl NumericValueOutOfRange)"

definition trunc_quot :: "int \<Rightarrow> int \<Rightarrow> int" where
  "trunc_quot a b = sgn a * sgn b * (\<bar>a\<bar> div \<bar>b\<bar>)"

definition int4_div :: "int \<Rightarrow> int \<Rightarrow> dberror + int" where
  "int4_div a b =
     (if b = 0 then Inl DivisionByZero
      else if in_int4 (trunc_quot a b) then Inr (trunc_quot a b)
      else Inl NumericValueOutOfRange)"

text \<open>\<^verbatim>\<open>(salary_from + salary_to) / 2\<close> on one row; null when a bound is null.\<close>

definition midpoint_expr :: "vacancy_row \<Rightarrow> dberror + int option" where
  "midpoint_expr r =
     (case (v_salary_from r, v_salary_to r) of
        (Some a, Some b) \<Rightarrow>
          bind_err (int4_add a b) (\<lambda>s. bind_err (int4_div s 2) (\<lambda>q. Inr (Some q)))
      | _ \<Rightarrow> Inr None)"

text \<open>Evaluating an expression on every row of a scan, stopping at the first error.\<close>

fun eval_rows :: "('a \<Rightarrow> dberror + 'b) \<Rightarrow> 'a list \<Rightarrow> dberror + 'b list" where
  "eval_rows f [] = Inr []"
| "eval_rows f (r # rs) =
     bind_err (f r) (\<lambda>x. bind_err (eval_rows f rs) (\<lambda>xs. Inr (x # xs)))"

text \<open>
  \<^verbatim>\<open>AVG\<close> skips nulls and is null when nothing is left. The quotient is taken as the
  exact rational number; the engine delivers it as a decimal rounded to at least 16
  significant digits, and that rounding is not modelled.
\<close>

definition sql_avg :: "int option list \<Rightarrow> rat option" where
  "sql_avg xs =
     (let ys = List.map_filter id xs
      in if ys = [] then None else Some (of_int (sum_list ys) / of_int (int (length ys))))"

text \<open>
  \<^verbatim>\<open>SELECT AVG((salary_from + salary_to) / 2) FROM vacancies
  WHERE salary_from IS NOT NULL AND salary_to IS NOT NULL\<close>
\<close>

definition get_avg_salary :: "db \<Rightarrow> dberror + rat option" where
  "get_avg_salary d =
     bind_err
       (eval_rows midpoint_expr
          (filter (\<lambda>r. v_salary_from r \<noteq> None \<and> v_salary_to r \<noteq> None) (vacancies d)))
       (\<lambda>ms. Inr (sql_avg ms))"

text \<open>
  A \<^verbatim>\<open>WHERE\<close> clause keeps the rows on which its condition is true; a null condition
  drops the row like a false one.
\<close>

fun select_where :: "('a \<Rightarrow> dberror + bool option) \<Rightarrow> 'a list \<Rightarrow> dberror + 'a list" where
  "select_where cond [] = Inr []"
| "select_where cond (r # rs) =
     bind_err (cond r) (\<lambda>b.
     bind_err (select_where cond rs) (\<lambda>keep.
       Inr (if b = Some True then r # keep else keep)))"

type_synonym vacancy_tuple = "string option \<times> int option \<times> int option \<times> string option"

text \<open>The select list \<^verbatim>\<open>name, salary_from, salary_to, url\<close>.\<close>

definition vacancy_tuple_of :: "vacancy_row \<Rightarrow> vacancy_tuple" where
  "vacancy_tuple_of r = (v_name r, v_salary_from r, v_salary_to r, v_url r)"

text \<open>\<^verbatim>\<open>((salary_from + salary_to) / 2) > %s\<close> with the average as its parameter.\<close>

definition higher_cond :: "rat option \<Rightarrow> vacancy_row \<Rightarrow> dberror + bool option" where
  "higher_cond avg r =
     bind_err (midpoint_expr r) (\<lambda>m.
       Inr (case (m, avg) of (Some x, Some a) \<Rightarrow> Some (a < of_int x) | _ \<Rightarrow> None))"

definition get_vacancies_with_higher_salary :: "db \<Rightarrow> dberror + vacancy_tuple list" where
  "get_vacancies_with_higher_salary d =
     bind_err (get_avg_salary d) (\<lambda>avg_salary.
     bind_err (select_where (higher_cond avg_salary) (vacancies d)) (\<lambda>rows.
       Inr (map vacancy_tuple_of rows)))"

subsection \<open>Pattern matching\<close>

definition percent :: char where "percent = CHR ''%''"
definition underscore :: char where "underscore = CHR ''_''"
definition backslash :: char where "backslash = CHR 0x5C"

text \<open>
  \<^verbatim>\<open>LIKE\<close>: a percent sign stands for any run of characters, an underscore for one
  character, and a backslash takes the next pattern character literally. A pattern
  that ends in a lone backslash is rejected by the engine; the patterns built below
  end in a percent sign, and the matcher answers \<open>False\<close> there.
\<close>

fun like_match :: "string \<Rightarrow> string \<Rightarrow> bool" where
  "like_match s [] = (s = [])"
| "like_match s (p # ps) =
     (if p = percent then
        (like_match s ps \<or> (case s of [] \<Rightarrow> False | c # cs \<Rightarrow> like_match cs (p # ps)))
      else if p = underscore then
        (case s of [] \<Rightarrow> False | c # cs \<Rightarrow> like_match cs ps)
      else if p = backslash then
        (case ps of
           [] \<Rightarrow> False
         | q # qs \<Rightarrow> (case s of [] \<Rightarrow> False | c # cs \<Rightarrow> c = q \<and> like_match cs qs))
      else
        (case s of [] \<Rightarrow> False | c # cs \<Rightarrow> c = p \<and> like_match cs ps))"

text \<open>\<^verbatim>\<open>ILIKE\<close> compares after folding the letters A to Z to lower case.\<close>

definition lower_char :: "char \<Rightarrow> char" where
  "lower_char c =
     (if 65 \<le> (of_char c :: nat) \<and> (of_char c :: nat) \<le> 90
      then char_of ((of_char c :: nat) + 32) else c)"

definition lower :: "string \<Rightarrow> string" where
  "lower s = map lower_char s"

definition ilike :: "string option \<Rightarrow> string \<Rightarrow> bool option" where
  "ilike v pat = (case v of None \<Rightarrow> None | Some s \<Rightarrow> Some (like_match (lower s) (lower pat)))"

text \<open>
  \<^verbatim>\<open>SELECT name, salary_from, salary_to, url FROM vacancies WHERE name ILIKE %s\<close> with
  the parameter \<^verbatim>\<open>f'%{keyword}%'\<close>.
\<close>

definition get_vacancies_with_keyword :: "string \<Rightarrow> db \<Rightarrow> dberror + vacancy_tuple list" where
  "get_vacancies_with_keyword keyword d =
     (let pat = [percent] @ keyword @ [percent]
      in if CHR 0x00 \<in> set pat then Inl CannotAdapt
         else bind_err (select_where (\<lambda>r. Inr (ilike (v_name r) pat)) (vacancies d)) (\<lambda>rows.
                Inr (map vacancy_tuple_of rows)))"

section \<open>Example states\<close>

definition empty_world :: world where
  "empty_world = \<lparr>store = \<lparr>companies = [], vacancies = []\<rparr>, out = []\<rparr>"

definition acme_world :: world where
  "acme_world =
     \<lparr>store = \<lparr>companies = [\<lparr>c_id = 1, c_name = ''Acme'', c_url = Some ''http://acme''\<rparr>],
               vacancies = []\<rparr>,
      out = []\<rparr>"

section \<open>The vacancy writer: validation, failures\<close>

lemma has_required_iff:
  "has_required v \<longleftrightarrow>
     map_of v ''id'' \<noteq> None \<and> map_of v ''name'' \<noteq> None \<and> map_of v ''alternate_url'' \<noteq> None"
  by (simp add: has_required_def required_keys_def)

text \<open>
  Claim C2. A vacancy record that lacks one of the keys \<^verbatim>\<open>id\<close>, \<^verbatim>\<open>name\<close>,
  \<^verbatim>\<open>alternate_url\<close> is skipped: \<^verbatim>\<open>insert_vacancy\<close> returns normally, no statement is
  executed (whatever the engine would do with it), and neither the tables nor the
  diagnostic stream change.
\<close>

theorem insert_vacancy_missing_key_skips:
  assumes "key \<in> set required_keys" and "map_of vacancy key = None"
  shows "insert_vacancy_on exec vacancy company_id w = (Returned (), w)
         \<and> insert_vacancy vacancy company_id w = (Returned (), w)"
proof -
  have "\<not> has_required vacancy"
    using assms by (auto simp: has_required_def list_all_iff)
  then show ?thesis
    by (simp add: insert_vacancy_def insert_vacancy_on_def)
qed

theorem insert_vacancy_missing_key_skips_witness:
  "''alternate_url'' \<in> set required_keys
   \<and> map_of [(''id'', PInt 7), (''name'', PStr ''Engineer'')] ''alternate_url'' = None
   \<and> insert_vacancy [(''id'', PInt 7), (''name'', PStr ''Engineer'')] 1 acme_world
       = (Returned (), acme_world)"
  using insert_vacancy_missing_key_skips
          [of "''alternate_url''" "[(''id'', PInt 7), (''name'', PStr ''Engineer'')]"
              pg_insert_vacancy 1 acme_world]
  by (simp add: required_keys_def)

text \<open>
  Claim C4. When the required fields are present and the salary lines have produced
  their three values, any error raised while the insert statement runs is caught:
  the method returns normally, the tables are as before, and two lines are appended
  to the diagnostic stream, the error message and the offending record. This holds
  for every behaviour \<open>exec\<close> of the driver and the engine.
\<close>

theorem insert_vacancy_logs_and_swallows:
  assumes "map_of vacancy ''id'' = Some i"
    and "map_of vacancy ''name'' = Some n"
    and "map_of vacancy ''alternate_url'' = Some u"
    and "salary_fields vacancy = Inr (salary_from, salary_to, currency)"
    and "exec (i, company_id, n, salary_from, salary_to, currency, u) (store w) = Inl e"
  shows "insert_vacancy_on exec vacancy company_id w
         = (Returned (), w\<lparr>out := out w @ [ErrorLine (DBError e), RecordLine vacancy]\<rparr>)"
  using assms
  by (simp add: insert_vacancy_on_def has_required_iff try_body_def py_index_def
      bind_err_def db_exc_def)

text \<open>
  A vacancy that references company 99, which does not exist: the engine reports a
  foreign key violation, and the caller sees a normal return.
\<close>

definition orphan_vacancy :: pydict where
  "orphan_vacancy =
     [(''id'', PInt 10), (''name'', PStr ''Engineer''), (''alternate_url'', PStr ''http://acme/10'')]"

theorem insert_vacancy_logs_and_swallows_witness:
  "pg_insert_vacancy
     (PInt 10, 99, PStr ''Engineer'', PInt 0, PInt 0, PStr ''RUR'', PStr ''http://acme/10'')
     (store acme_world) = Inl ForeignKeyViolation
   \<and> insert_vacancy orphan_vacancy 99 acme_world
     = (Returned (),
        acme_world\<lparr>out := [ErrorLine (DBError ForeignKeyViolation), RecordLine orphan_vacancy]\<rparr>)"
proof -
  have sal: "salary_fields orphan_vacancy = Inr (PInt 0, PInt 0, PStr ''RUR'')"
    by (simp add: salary_fields_def orphan_vacancy_def dict_get_def py_or_def)
  have ex: "pg_insert_vacancy
     (PInt 10, 99, PStr ''Engineer'', PInt 0, PInt 0, PStr ''RUR'', PStr ''http://acme/10'')
     (store acme_world) = Inl ForeignKeyViolation"
    by (simp add: pg_insert_vacancy_def acme_world_def bind_err_def check_int4_def in_int4_def
        int4_min_def int4_max_def fit_text_def)
  have "out acme_world = []" by (simp add: acme_world_def)
  with ex show ?thesis
    using insert_vacancy_logs_and_swallows
            [of orphan_vacancy "PInt 10" "PStr ''Engineer''" "PStr ''http://acme/10''"
                "PInt 0" "PInt 0" "PStr ''RUR''" pg_insert_vacancy 99 acme_world
                ForeignKeyViolation, OF _ _ _ sal]
    by (simp add: insert_vacancy_def orphan_vacancy_def)
qed

lemma salary_fields_raises:
  assumes "map_of vacancy ''salary'' = Some s" and "truthy s" and "\<forall>d. s \<noteq> PDict d"
  shows "salary_fields vacancy = Inl AttributeError"
  using assms by (cases s) (simp_all add: salary_fields_def dict_get_def py_or_def)

text \<open>
  Claim C9. The \<^verbatim>\<open>try\<close> block does not cover the salary lines: when the required
  fields are present and \<^verbatim>\<open>salary\<close> is a truthy value that is not a mapping (a
  non-empty string, a non-zero number, \<^verbatim>\<open>True\<close>), \<^verbatim>\<open>insert_vacancy\<close> raises
  \<^verbatim>\<open>AttributeError\<close> to its caller; no statement runs, so no row is inserted and
  nothing is logged.
\<close>

theorem insert_vacancy_salary_not_mapping_raises:
  assumes "has_required vacancy"
    and "map_of vacancy ''salary'' = Some s" and "truthy s" and "\<forall>d. s \<noteq> PDict d"
  shows "insert_vacancy_on exec vacancy company_id w = (Raised AttributeError, w)
         \<and> insert_vacancy vacancy company_id w = (Raised AttributeError, w)"
  using assms(1) salary_fields_raises [OF assms(2-4)]
  by (simp add: insert_vacancy_on_def insert_vacancy_def)

definition text_salary_vacancy :: pydict where
  "text_salary_vacancy =
     [(''id'', PInt 11), (''name'', PStr ''Analyst''), (''alternate_url'', PStr ''http://acme/11''),
      (''salary'', PStr ''negotiable'')]"

theorem insert_vacancy_salary_not_mapping_raises_witness:
  "has_required text_salary_vacancy
   \<and> map_of text_salary_vacancy ''salary'' = Some (PStr ''negotiable'')
   \<and> truthy (PStr ''negotiable'')
   \<and> insert_vacancy text_salary_vacancy 1 acme_world = (Raised AttributeError, acme_world)"
  using insert_vacancy_salary_not_mapping_raises
          [of text_salary_vacancy "PStr ''negotiable''" pg_insert_vacancy 1 acme_world]
  by (simp add: has_required_iff text_salary_vacancy_def)

section \<open>The salary queries\<close>

text \<open>
  The figure the specification calls the midpoint salary, with the division read as
  the query has it: on integers, cut towards zero. It is undefined (null) when a
  bound is null, so \<open>List.map_filter spec_midpoint\<close> lists the midpoints of exactly
  the rows with two non-null bounds. \<open>spec_mean\<close> is the arithmetic mean, undefined
  for no values, and \<open>sum_fits\<close> says that the sum of the two bounds of a row is a
  32-bit integer. \<open>above\<close>, further down, is the filter of the specification: the
  midpoint exists and is strictly greater than the average, which exists too.
\<close>

definition spec_midpoint :: "vacancy_row \<Rightarrow> int option" where
  "spec_midpoint r =
     (case (v_salary_from r, v_salary_to r) of
        (Some a, Some b) \<Rightarrow> Some (trunc_quot (a + b) 2)
      | _ \<Rightarrow> None)"

definition sum_fits :: "vacancy_row \<Rightarrow> bool" where
  "sum_fits r =
     (case (v_salary_from r, v_salary_to r) of
        (Some a, Some b) \<Rightarrow> in_int4 (a + b)
      | _ \<Rightarrow> True)"

lemma trunc_quot_2_between:
  "(0 \<le> s \<longrightarrow> 0 \<le> trunc_quot s 2 \<and> trunc_quot s 2 \<le> s)
   \<and> (s < 0 \<longrightarrow> s \<le> trunc_quot s 2 \<and> trunc_quot s 2 \<le> 0)"
proof (cases "0 \<le> s")
  case True
  then have "s div 2 \<le> s" "0 \<le> s div 2" by linarith+
  then show ?thesis using True by (simp add: trunc_quot_def sgn_if)
next
  case False
  then have "(- s) div 2 \<le> - s" "0 \<le> (- s) div 2" by linarith+
  then show ?thesis using False by (simp add: trunc_quot_def sgn_if)
qed

lemma trunc_quot_2_in_int4: "in_int4 s \<Longrightarrow> in_int4 (trunc_quot s 2)"
  using trunc_quot_2_between [of s]
  unfolding in_int4_def int4_min_def int4_max_def by (cases "0 \<le> s") auto

lemma midpoint_expr_fits:
  "sum_fits r \<Longrightarrow> midpoint_expr r = Inr (spec_midpoint r)"
  by (cases "v_salary_from r"; cases "v_salary_to r")
     (simp_all add: sum_fits_def midpoint_expr_def spec_midpoint_def bind_err_def int4_add_def
        int4_div_def trunc_quot_2_in_int4)

lemma midpoint_expr_overflow:
  "\<not> sum_fits r \<Longrightarrow> midpoint_expr r = Inl NumericValueOutOfRange"
  by (cases "v_salary_from r"; cases "v_salary_to r")
     (simp_all add: sum_fits_def midpoint_expr_def bind_err_def int4_add_def)


definition spec_mean :: "int list \<Rightarrow> rat option" where
  "spec_mean ms = (if ms = [] then None else Some (of_int (sum_list ms) / of_int (int (length ms))))"

lemma midpoint_expr_error:
  "midpoint_expr r = Inl e \<Longrightarrow> e = NumericValueOutOfRange"
  using midpoint_expr_fits [of r] midpoint_expr_overflow [of r]
  by (cases "sum_fits r") simp_all

lemma eval_rows_ok:
  "(\<And>r. r \<in> set rs \<Longrightarrow> f r = Inr (g r)) \<Longrightarrow> eval_rows f rs = Inr (map g rs)"
  by (induction rs) (simp_all add: bind_err_def)

lemma eval_rows_error:
  assumes "r \<in> set rs" and "f r = Inl e" and "\<And>x e'. f x = Inl e' \<Longrightarrow> e' = e"
  shows "eval_rows f rs = Inl e"
  using assms(1,2)
proof (induction rs)
  case Nil
  then show ?case by simp
next
  case (Cons a rs)
  show ?case
  proof (cases "f a")
    case (Inl e')
    then show ?thesis using assms(3) by (simp add: bind_err_def)
  next
    case (Inr y)
    then have "r \<in> set rs" using Cons.prems by auto
    then have "eval_rows f rs = Inl e" using Cons by simp
    then show ?thesis using Inr by (simp add: bind_err_def)
  qed
qed

lemma select_where_ok:
  "(\<And>r. r \<in> set rs \<Longrightarrow> cond r = Inr (c r)) \<Longrightarrow>
   select_where cond rs = Inr (filter (\<lambda>r. c r = Some True) rs)"
  by (induction rs) (simp_all add: bind_err_def)

lemma map_filter_midpoint:
  "List.map_filter id (map spec_midpoint rs) = List.map_filter spec_midpoint rs"
  by (induction rs) (simp_all add: List.map_filter_def)

lemma spec_midpoint_None_iff:
  "spec_midpoint r = None \<longleftrightarrow> v_salary_from r = None \<or> v_salary_to r = None"
  by (cases "v_salary_from r"; cases "v_salary_to r") (simp_all add: spec_midpoint_def)

lemma map_filter_qualifying:
  "List.map_filter spec_midpoint
     (filter (\<lambda>r. v_salary_from r \<noteq> None \<and> v_salary_to r \<noteq> None) rs)
   = List.map_filter spec_midpoint rs"
proof (induction rs)
  case Nil
  then show ?case by simp
next
  case (Cons r rs)
  then show ?case
    using spec_midpoint_None_iff [of r] by (auto simp: List.map_filter_def)
qed

lemma get_avg_salary_fits:
  assumes "\<forall>r\<in>set (vacancies d). sum_fits r"
  shows "get_avg_salary d = Inr (spec_mean (List.map_filter spec_midpoint (vacancies d)))"
proof -
  let ?q = "filter (\<lambda>r. v_salary_from r \<noteq> None \<and> v_salary_to r \<noteq> None) (vacancies d)"
  have "eval_rows midpoint_expr ?q = Inr (map spec_midpoint ?q)"
  proof (rule eval_rows_ok)
    fix r assume "r \<in> set ?q"
    then have "sum_fits r" using assms by simp
    then show "midpoint_expr r = Inr (spec_midpoint r)" by (rule midpoint_expr_fits)
  qed
  then have "get_avg_salary d = Inr (sql_avg (map spec_midpoint ?q))"
    unfolding get_avg_salary_def by (simp only: bind_err_def sum.case)
  moreover have "List.map_filter id (map spec_midpoint ?q)
                 = List.map_filter spec_midpoint (vacancies d)"
    by (simp only: map_filter_midpoint map_filter_qualifying)
  ultimately show ?thesis
    by (simp only: sql_avg_def spec_mean_def Let_def)
qed

lemma get_avg_salary_overflow:
  assumes "r \<in> set (vacancies d)" and "\<not> sum_fits r"
  shows "get_avg_salary d = Inl NumericValueOutOfRange"
proof -
  let ?q = "filter (\<lambda>r. v_salary_from r \<noteq> None \<and> v_salary_to r \<noteq> None) (vacancies d)"
  have "v_salary_from r \<noteq> None \<and> v_salary_to r \<noteq> None"
    using assms(2) by (cases "v_salary_from r"; cases "v_salary_to r") (simp_all add: sum_fits_def)
  then have "r \<in> set ?q" using assms(1) by simp
  moreover have "midpoint_expr r = Inl NumericValueOutOfRange"
    using assms(2) by (rule midpoint_expr_overflow)
  ultimately have "eval_rows midpoint_expr ?q = Inl NumericValueOutOfRange"
    using midpoint_expr_error by (rule eval_rows_error)
  then show ?thesis by (simp add: get_avg_salary_def bind_err_def)
qed

lemma get_avg_salary_ok_fits:
  assumes "get_avg_salary d = Inr avg" and "r \<in> set (vacancies d)"
  shows "sum_fits r"
proof (rule ccontr)
  assume "\<not> sum_fits r"
  with assms(2) have "get_avg_salary d = Inl NumericValueOutOfRange"
    by (rule get_avg_salary_overflow)
  with assms(1) show False by simp
qed

definition above :: "rat option \<Rightarrow> vacancy_row \<Rightarrow> bool" where
  "above avg r = (case (spec_midpoint r, avg) of (Some m, Some a) \<Rightarrow> a < of_int m | _ \<Rightarrow> False)"

lemma higher_cond_fits:
  "sum_fits r \<Longrightarrow>
   higher_cond avg r = Inr (if above avg r then Some True else
                              if spec_midpoint r = None \<or> avg = None then None else Some False)"
  by (cases "spec_midpoint r"; cases avg)
     (simp_all add: higher_cond_def midpoint_expr_fits bind_err_def above_def)

lemma higher_ok:
  assumes "get_avg_salary d = Inr avg"
  shows "get_vacancies_with_higher_salary d
         = Inr (map vacancy_tuple_of (filter (above avg) (vacancies d)))"
proof -
  let ?c = "\<lambda>r. if above avg r then Some True else
                  if spec_midpoint r = None \<or> avg = None then None else Some False"
  have "select_where (higher_cond avg) (vacancies d)
        = Inr (filter (\<lambda>r. ?c r = Some True) (vacancies d))"
  proof (rule select_where_ok)
    fix r assume "r \<in> set (vacancies d)"
    with assms have "sum_fits r" by (rule get_avg_salary_ok_fits)
    then show "higher_cond avg r = Inr (?c r)" by (rule higher_cond_fits)
  qed
  moreover have "(\<lambda>r. ?c r = Some True) = above avg"
    by (simp add: fun_eq_iff)
  ultimately show ?thesis
    using assms by (simp add: get_vacancies_with_higher_salary_def bind_err_def)
qed

lemma null_bound_fits:
  "v_salary_from r = None \<or> v_salary_to r = None \<Longrightarrow> sum_fits r"
  by (cases "v_salary_from r"; cases "v_salary_to r") (simp_all add: sum_fits_def)

lemma map_filter_all_None:
  "(\<And>r. r \<in> set rs \<Longrightarrow> f r = None) \<Longrightarrow> List.map_filter f rs = []"
  by (induction rs) (simp_all add: List.map_filter_def)

lemma get_avg_salary_no_rows:
  assumes "\<forall>r\<in>set (vacancies d). v_salary_from r = None \<or> v_salary_to r = None"
  shows "get_avg_salary d = Inr None"
proof -
  have "\<forall>r\<in>set (vacancies d). sum_fits r"
    using assms null_bound_fits by blast
  then have "get_avg_salary d = Inr (spec_mean (List.map_filter spec_midpoint (vacancies d)))"
    by (rule get_avg_salary_fits)
  moreover have "List.map_filter spec_midpoint (vacancies d) = []"
    by (rule map_filter_all_None) (use assms spec_midpoint_None_iff in blast)
  ultimately show ?thesis by (simp add: spec_mean_def)
qed

lemma above_None: "\<not> above None r"
  by (cases "spec_midpoint r") (simp_all add: above_def)


definition salary_row :: "int \<Rightarrow> int option \<Rightarrow> int option \<Rightarrow> vacancy_row" where
  "salary_row i a b =
     \<lparr>v_id = i, v_company_id = Some 1, v_name = Some ''Engineer'', v_salary_from = a,
      v_salary_to = b, v_currency = Some ''RUR'', v_url = Some ''http://acme/v''\<rparr>"







text \<open>
  Claim C8. When the vacancies table is empty or every row has a null salary bound,
  \<^verbatim>\<open>get_avg_salary\<close> returns null, and \<^verbatim>\<open>get_vacancies_with_higher_salary\<close> returns the
  empty list without raising: the comparison with a null average is true on no row.
\<close>

theorem higher_salary_null_average_empty:
  assumes "\<forall>r\<in>set (vacancies d). v_salary_from r = None \<or> v_salary_to r = None"
  shows "get_avg_salary d = Inr None \<and> get_vacancies_with_higher_salary d = Inr []"
proof -
  have avg: "get_avg_salary d = Inr None"
    using assms by (rule get_avg_salary_no_rows)
  then have "get_vacancies_with_higher_salary d
             = Inr (map vacancy_tuple_of (filter (above None) (vacancies d)))"
    by (rule higher_ok)
  then show ?thesis using avg by (simp add: above_None)
qed

definition open_salaries :: db where
  "open_salaries =
     \<lparr>companies = [\<lparr>c_id = 1, c_name = ''Acme'', c_url = Some ''http://acme''\<rparr>],
      vacancies = [salary_row 1 (Some 1000) None, salary_row 2 None (Some 500),
                   salary_row 3 None None]\<rparr>"

theorem higher_salary_null_average_empty_witness:
  "list_all (\<lambda>r. v_salary_from r = None \<or> v_salary_to r = None) (vacancies open_salaries)
   \<and> vacancies (store empty_world) = []
   \<and> get_avg_salary open_salaries = Inr None
   \<and> get_vacancies_with_higher_salary open_salaries = Inr []
   \<and> get_vacancies_with_higher_salary (store empty_world) = Inr []"
proof -
  have "\<forall>r\<in>set (vacancies open_salaries). v_salary_from r = None \<or> v_salary_to r = None"
    by (simp add: open_salaries_def salary_row_def)
  moreover have "\<forall>r\<in>set (vacancies (store empty_world)).
                   v_salary_from r = None \<or> v_salary_to r = None"
    by (simp add: empty_world_def)
  moreover have "vacancies (store empty_world) = []"
    by (simp add: empty_world_def)
  ultimately show ?thesis
    using higher_salary_null_average_empty [of open_salaries]
      higher_salary_null_average_empty [of "store empty_world"]
    by (simp add: list_all_iff)
qed

section \<open>The keyword search\<close>


declare like_match.simps(2) [simp del]


lemma meta_distinct:
  "percent \<noteq> underscore" "percent \<noteq> backslash" "underscore \<noteq> backslash"
  by (simp_all add: percent_def underscore_def backslash_def)

lemma like_match_underscore_simps:
  "like_match [] (underscore # ps) = False"
  "like_match (c # cs) (underscore # ps) = like_match cs ps"
  using meta_distinct by (simp_all add: like_match.simps(2))


















definition named_row :: "int \<Rightarrow> string option \<Rightarrow> vacancy_row" where
  "named_row i n =
     \<lparr>v_id = i, v_company_id = Some 1, v_name = n, v_salary_from = Some 0,
      v_salary_to = Some 0, v_currency = Some ''RUR'', v_url = Some ''http://acme/v''\<rparr>"

definition named_db :: db where
  "named_db =
     \<lparr>companies = [\<lparr>c_id = 1, c_name = ''Acme'', c_url = Some ''http://acme''\<rparr>],
      vacancies = [named_row 1 (Some ''SENIOR ENGINEER''), named_row 2 (Some ''QA Engineer''),
                   named_row 3 (Some ''C++ developer''), named_row 4 None]\<rparr>"



text \<open>
  Claim C10. The keyword goes into the pattern unescaped, so a pattern character in
  it keeps its meaning: the keyword \<^verbatim>\<open>QA_engineer\<close> contains an underscore, and the
  search returns the vacancy named "QA Engineer", although that name does not contain
  the keyword as a literal substring (neither as written nor with case ignored).
\<close>

theorem keyword_wildcards_not_escaped:
  "underscore \<in> set ''QA_engineer''
   \<and> get_vacancies_with_keyword ''QA_engineer'' named_db
     = Inr [(Some ''QA Engineer'', Some 0, Some 0, Some ''http://acme/v'')]
   \<and> \<not> sublist ''QA_engineer'' ''QA Engineer''
   \<and> \<not> sublist (lower ''QA_engineer'') (lower ''QA Engineer'')"
  by code_simp

section \<open>The writers: repeated inserts and stored salaries\<close>

lemma bind_err_Inr_iff:
  "bind_err m f = Inr y \<longleftrightarrow> (\<exists>x. m = Inr x \<and> f x = Inr y)"
  by (cases m) (simp_all add: bind_err_def)

lemma pg_insert_vacancy_Inr:
  assumes "pg_insert_vacancy (pid, cid, pname, pfrom, pto, pcur, purl) d = Inr d'"
  obtains i c n sf st cur u where
    "to_int4 pid = Inr (Some i)" "check_int4 cid = Inr c" "to_text (Some 255) pname = Inr n"
    "to_int4 pfrom = Inr sf" "to_int4 pto = Inr st" "to_text (Some 10) pcur = Inr cur"
    "to_text None purl = Inr u"
    "(i \<in> set (map v_id (vacancies d)) \<and> d' = d)
     \<or> (i \<notin> set (map v_id (vacancies d))
        \<and> d' = d\<lparr>vacancies := vacancies d @
                    [\<lparr>v_id = i, v_company_id = c, v_name = n, v_salary_from = sf,
                      v_salary_to = st, v_currency = cur, v_url = u\<rparr>]\<rparr>)"
proof -
  from assms obtain oi c n sf st cur u where
    conv: "to_int4 pid = Inr oi" "check_int4 cid = Inr c" "to_text (Some 255) pname = Inr n"
      "to_int4 pfrom = Inr sf" "to_int4 pto = Inr st" "to_text (Some 10) pcur = Inr cur"
      "to_text None purl = Inr u"
    and rest: "(case oi of
            None \<Rightarrow> Inl NotNullViolation
          | Some i' \<Rightarrow>
              if i' \<in> set (map v_id (vacancies d)) then Inr d
              else if (case c of None \<Rightarrow> False
                       | Some c' \<Rightarrow> c' \<notin> set (map c_id (companies d)))
                then Inl ForeignKeyViolation
              else Inr (d\<lparr>vacancies :=
                          vacancies d @
                            [\<lparr>v_id = i', v_company_id = c, v_name = n, v_salary_from = sf,
                              v_salary_to = st, v_currency = cur, v_url = u\<rparr>]\<rparr>)) = Inr d'"
    unfolding pg_insert_vacancy_def prod.case bind_err_Inr_iff by blast
  from rest obtain i where oi: "oi = Some i" by (cases oi) simp_all
  from rest have "(i \<in> set (map v_id (vacancies d)) \<and> d' = d)
     \<or> (i \<notin> set (map v_id (vacancies d))
        \<and> d' = d\<lparr>vacancies := vacancies d @
                    [\<lparr>v_id = i, v_company_id = c, v_name = n, v_salary_from = sf,
                      v_salary_to = st, v_currency = cur, v_url = u\<rparr>]\<rparr>)"
    unfolding oi by (auto split: if_splits)
  with conv oi that show thesis by blast
qed



lemma pg_insert_vacancy_conflict:
  assumes "to_int4 pid = Inr (Some i)" and "i \<in> set (map v_id (vacancies d))"
    and "pg_insert_vacancy (pid, cid, pname, pfrom, pto, pcur, purl) d = Inr d'"
  shows "d' = d"
  using assms(3)
proof (rule pg_insert_vacancy_Inr)
  fix j c n sf st cur u
  assume "to_int4 pid = Inr (Some j)"
    and "(j \<in> set (map v_id (vacancies d)) \<and> d' = d)
     \<or> (j \<notin> set (map v_id (vacancies d))
        \<and> d' = d\<lparr>vacancies := vacancies d @
                    [\<lparr>v_id = j, v_company_id = c, v_name = n, v_salary_from = sf,
                      v_salary_to = st, v_currency = cur, v_url = u\<rparr>]\<rparr>)"
  with assms(1,2) show "d' = d" by auto
qed

lemma has_required_obtain:
  assumes "has_required v"
  obtains qi qn qu where "map_of v ''id'' = Some qi" "map_of v ''name'' = Some qn"
    "map_of v ''alternate_url'' = Some qu"
  using assms unfolding has_required_iff by blast

lemma try_body_present:
  assumes "map_of v ''id'' = Some qi" "map_of v ''name'' = Some qn"
    "map_of v ''alternate_url'' = Some qu"
  shows "try_body exec v cid (psf, pst, pcur) d
         = db_exc (exec (qi, cid, qn, psf, pst, pcur, qu) d)"
  using assms by (simp add: try_body_def py_index_def bind_err_def)

lemma db_exc_simps [simp]:
  "db_exc (Inl e) = Inl (DBError e)" "db_exc (Inr x) = Inr x"
  by (simp_all add: db_exc_def)

lemma insert_vacancy_result:
  obtains (unchanged) "store (snd (insert_vacancy v cid w)) = store w"
  | (stored) i c n sf st cur u psf pst pcur where
      "has_required v" "salary_fields v = Inr (psf, pst, pcur)"
      "to_int4 (dict_get v ''id'') = Inr (Some i)"
      "i \<notin> set (map v_id (vacancies (store w)))"
      "to_int4 psf = Inr sf" "to_int4 pst = Inr st" "to_text (Some 10) pcur = Inr cur"
      "insert_vacancy v cid w =
         (Returned (),
          w\<lparr>store := (store w)\<lparr>vacancies := vacancies (store w) @
                    [\<lparr>v_id = i, v_company_id = c, v_name = n, v_salary_from = sf,
                      v_salary_to = st, v_currency = cur, v_url = u\<rparr>]\<rparr>\<rparr>)"
proof (cases "has_required v")
  case False
  then have "insert_vacancy v cid w = (Returned (), w)"
    by (simp add: insert_vacancy_def insert_vacancy_on_def)
  then show thesis using unchanged by simp
next
  case True
  then obtain qi qn qu where keys: "map_of v ''id'' = Some qi" "map_of v ''name'' = Some qn"
    "map_of v ''alternate_url'' = Some qu"
    by (rule has_required_obtain)
  show thesis
  proof (cases "salary_fields v")
    case (Inl e)
    then have "insert_vacancy v cid w = (Raised e, w)"
      using True by (simp add: insert_vacancy_def insert_vacancy_on_def)
    then show thesis using unchanged by simp
  next
    case (Inr sal)
    obtain psf pst pcur where sal: "sal = (psf, pst, pcur)" by (cases sal) blast
    show thesis
    proof (cases "pg_insert_vacancy (qi, cid, qn, psf, pst, pcur, qu) (store w)")
      case (Inl e)
      then have "insert_vacancy v cid w
                 = (Returned (), w\<lparr>out := out w @ [ErrorLine (DBError e), RecordLine v]\<rparr>)"
        using True Inr sal
        by (simp add: insert_vacancy_def insert_vacancy_on_def try_body_present [OF keys])
      then show thesis using unchanged by simp
    next
      case (Inr d')
      then have res: "insert_vacancy v cid w = (Returned (), w\<lparr>store := d'\<rparr>)"
        using True \<open>salary_fields v = Inr sal\<close> sal
        by (simp add: insert_vacancy_def insert_vacancy_on_def try_body_present [OF keys])
      from Inr show thesis
      proof (rule pg_insert_vacancy_Inr)
        fix i c n sf st cur u
        assume conv: "to_int4 qi = Inr (Some i)" "to_int4 psf = Inr sf" "to_int4 pst = Inr st"
          "to_text (Some 10) pcur = Inr cur"
        assume "(i \<in> set (map v_id (vacancies (store w))) \<and> d' = store w)
          \<or> (i \<notin> set (map v_id (vacancies (store w)))
             \<and> d' = (store w)\<lparr>vacancies := vacancies (store w) @
                    [\<lparr>v_id = i, v_company_id = c, v_name = n, v_salary_from = sf,
                      v_salary_to = st, v_currency = cur, v_url = u\<rparr>]\<rparr>)"
        then show thesis
        proof (elim disjE conjE)
          assume "d' = store w"
          then show thesis using res unchanged by simp
        next
          assume fresh: "i \<notin> set (map v_id (vacancies (store w)))"
            and d': "d' = (store w)\<lparr>vacancies := vacancies (store w) @
                    [\<lparr>v_id = i, v_company_id = c, v_name = n, v_salary_from = sf,
                      v_salary_to = st, v_currency = cur, v_url = u\<rparr>]\<rparr>"
          have "to_int4 (dict_get v ''id'') = Inr (Some i)"
            using keys(1) conv(1) by (simp add: dict_get_def)
          then show thesis
            using stored [OF True _ _ fresh conv(2-4)] \<open>salary_fields v = Inr sal\<close> sal res d'
            by simp
        qed
      qed
    qed
  qed
qed

















definition salary_part :: "pydict \<Rightarrow> string \<Rightarrow> pyval" where
  "salary_part vacancy k =
     (case dict_get vacancy ''salary'' of PDict s \<Rightarrow> dict_get s k | _ \<Rightarrow> PNone)"

lemma dict_get_Nil [simp]: "dict_get [] k = PNone"
  by (simp add: dict_get_def)

lemma salary_case_Inr:
  assumes "(case py_or x (PDict []) of PDict salary \<Rightarrow> Inr (f salary) | _ \<Rightarrow> Inl AttributeError)
           = Inr y"
  shows "y = f (case x of PDict s \<Rightarrow> s | _ \<Rightarrow> [])"
  using assms by (cases x) (auto simp: py_or_def split: if_splits)

lemma salary_part_alt:
  "salary_part v k = dict_get (case dict_get v ''salary'' of PDict s \<Rightarrow> s | _ \<Rightarrow> []) k"
  unfolding salary_part_def by (cases "dict_get v ''salary''") simp_all

lemma salary_fields_Inr:
  assumes "salary_fields v = Inr (psf, pst, pcur)"
  shows "psf = py_or (salary_part v ''from'') (PInt 0)
         \<and> pst = py_or (salary_part v ''to'') (PInt 0)
         \<and> pcur = py_or (salary_part v ''currency'') (PStr ''RUR'')"
proof -
  let ?f = "\<lambda>salary. (py_or (dict_get salary ''from'') (PInt 0),
               py_or (dict_get salary ''to'') (PInt 0),
               py_or (dict_get salary ''currency'') (PStr ''RUR''))"
  have "(psf, pst, pcur) = ?f (case dict_get v ''salary'' of PDict s \<Rightarrow> s | _ \<Rightarrow> [])"
    using assms unfolding salary_fields_def by (rule salary_case_Inr)
  then show ?thesis by (simp add: salary_part_alt)
qed




definition engineer_vacancy :: pydict where
  "engineer_vacancy =
     [(''id'', PInt 10), (''name'', PStr ''Engineer''), (''alternate_url'', PStr ''http://acme/10''),
      (''salary'', PDict [(''from'', PInt 1000), (''to'', PInt 2000), (''currency'', PStr ''USD'')])]"

definition engineer_row :: vacancy_row where
  "engineer_row =
     \<lparr>v_id = 10, v_company_id = Some 1, v_name = Some ''Engineer'', v_salary_from = Some 1000,
      v_salary_to = Some 2000, v_currency = Some ''USD'', v_url = Some ''http://acme/10''\<rparr>"

lemmas eval_defs =
  insert_vacancy_def insert_vacancy_on_def has_required_iff
  salary_fields_def dict_get_def py_or_def try_body_def py_index_def bind_err_def
  db_exc_def pg_insert_vacancy_def pg_insert_company_def insert_company_def
  check_int4_def in_int4_def int4_min_def int4_max_def fit_text_def


lemma insert_engineer:
  "insert_vacancy engineer_vacancy 1 acme_world
   = (Returned (), acme_world\<lparr>store := (store acme_world)\<lparr>vacancies := [engineer_row]\<rparr>\<rparr>)"
  by (simp add: eval_defs engineer_vacancy_def acme_world_def engineer_row_def)




text \<open>
  Claim C3, amended. \<open>salary_part\<close> is the value the record gives for one part of the
  salary: that of the sub-structure, or \<^verbatim>\<open>None\<close> when the sub-structure or the part is
  absent or null. Whenever \<^verbatim>\<open>insert_vacancy\<close> stores a new row, the record has the
  required fields, and in the stored row: a part that is absent, null or falsy in
  another way (zero, the empty string, \<^verbatim>\<open>False\<close>) is 0 for \<^verbatim>\<open>salary_from\<close>, 0 for
  \<^verbatim>\<open>salary_to\<close> and "RUR" for \<^verbatim>\<open>currency\<close>; an integer given for a bound is stored as
  given; a non-empty currency string of at most ten characters is stored as given.
\<close>

theorem stored_salary_defaults:
  assumes "r \<in> set (vacancies (store (snd (insert_vacancy v cid w))))"
    and "r \<notin> set (vacancies (store w))"
  shows "has_required v
    \<and> (\<not> truthy (salary_part v ''from'') \<longrightarrow> v_salary_from r = Some 0)
    \<and> (\<not> truthy (salary_part v ''to'') \<longrightarrow> v_salary_to r = Some 0)
    \<and> (\<not> truthy (salary_part v ''currency'') \<longrightarrow> v_currency r = Some ''RUR'')
    \<and> (\<forall>n. salary_part v ''from'' = PInt n \<longrightarrow> v_salary_from r = Some n)
    \<and> (\<forall>n. salary_part v ''to'' = PInt n \<longrightarrow> v_salary_to r = Some n)
    \<and> (\<forall>c. salary_part v ''currency'' = PStr c \<and> c \<noteq> [] \<and> length c \<le> 10 \<longrightarrow>
          v_currency r = Some c)"
proof (cases rule: insert_vacancy_result [of v cid w])
  case unchanged
  then show ?thesis using assms by simp
next
  case (stored i c n sf st cur u psf pst pcur)
  have r: "v_salary_from r = sf" "v_salary_to r = st" "v_currency r = cur"
    using assms stored(8) by auto
  have p: "psf = py_or (salary_part v ''from'') (PInt 0)"
    "pst = py_or (salary_part v ''to'') (PInt 0)"
    "pcur = py_or (salary_part v ''currency'') (PStr ''RUR'')"
    using salary_fields_Inr [OF stored(2)] by simp_all
  have sf: "to_int4 (py_or (salary_part v ''from'') (PInt 0)) = Inr (v_salary_from r)"
    and st: "to_int4 (py_or (salary_part v ''to'') (PInt 0)) = Inr (v_salary_to r)"
    and cur: "to_text (Some 10) (py_or (salary_part v ''currency'') (PStr ''RUR''))
              = Inr (v_currency r)"
    using stored(5-7) unfolding r p by simp_all
  have int_default: "v_salary_from r = Some 0" if "\<not> truthy (salary_part v ''from'')"
    using sf that by (simp add: py_or_def check_int4_def in_int4_def int4_min_def int4_max_def)
  have int_default': "v_salary_to r = Some 0" if "\<not> truthy (salary_part v ''to'')"
    using st that by (simp add: py_or_def check_int4_def in_int4_def int4_min_def int4_max_def)
  have cur_default: "v_currency r = Some ''RUR''" if "\<not> truthy (salary_part v ''currency'')"
    using cur that by (simp add: py_or_def fit_text_def)
  have given: "to_int4 (py_or (PInt k) (PInt 0)) = Inr x \<Longrightarrow> x = Some k" for k x
    by (cases "k = 0") (auto simp: py_or_def check_int4_def split: if_splits)
  have int_given: "v_salary_from r = Some k" if "salary_part v ''from'' = PInt k" for k
    using sf given unfolding that by blast
  have int_given': "v_salary_to r = Some k" if "salary_part v ''to'' = PInt k" for k
    using st given unfolding that by blast
  have cur_given: "v_currency r = Some k"
    if "salary_part v ''currency'' = PStr k" "k \<noteq> []" "length k \<le> 10" for k
    using cur that(2,3) unfolding that(1)
    by (auto simp: py_or_def fit_text_def split: if_splits)
  show ?thesis
    using stored(1) int_default int_default' cur_default int_given int_given' cur_given
    by blast
qed

definition plain_vacancy :: pydict where
  "plain_vacancy =
     [(''id'', PInt 20), (''name'', PStr ''Analyst''), (''alternate_url'', PStr ''http://acme/20'')]"

text \<open>
  A vacancy without salary information is stored with 0, 0 and "RUR"; the vacancy
  of the end-to-end example is stored with its own three values.
\<close>

theorem stored_salary_defaults_witness:
  "vacancies (store (snd (insert_vacancy plain_vacancy 1 acme_world)))
     = [\<lparr>v_id = 20, v_company_id = Some 1, v_name = Some ''Analyst'', v_salary_from = Some 0,
         v_salary_to = Some 0, v_currency = Some ''RUR'', v_url = Some ''http://acme/20''\<rparr>]
   \<and> vacancies (store acme_world) = []
   \<and> salary_part plain_vacancy ''from'' = PNone
   \<and> salary_part plain_vacancy ''to'' = PNone
   \<and> salary_part plain_vacancy ''currency'' = PNone
   \<and> has_required plain_vacancy
   \<and> salary_part engineer_vacancy ''from'' = PInt 1000
   \<and> salary_part engineer_vacancy ''to'' = PInt 2000
   \<and> salary_part engineer_vacancy ''currency'' = PStr ''USD''
   \<and> vacancies (store (snd (insert_vacancy engineer_vacancy 1 acme_world))) = [engineer_row]"
proof -
  have plain: "vacancies (store (snd (insert_vacancy plain_vacancy 1 acme_world)))
     = [\<lparr>v_id = 20, v_company_id = Some 1, v_name = Some ''Analyst'', v_salary_from = Some 0,
         v_salary_to = Some 0, v_currency = Some ''RUR'', v_url = Some ''http://acme/20''\<rparr>]"
    by (simp add: eval_defs plain_vacancy_def acme_world_def)
  have none: "vacancies (store acme_world) = []" by (simp add: acme_world_def)
  have parts: "salary_part plain_vacancy ''from'' = PNone"
    "salary_part plain_vacancy ''to'' = PNone" "salary_part plain_vacancy ''currency'' = PNone"
    "salary_part engineer_vacancy ''from'' = PInt 1000"
    "salary_part engineer_vacancy ''to'' = PInt 2000"
    "salary_part engineer_vacancy ''currency'' = PStr ''USD''"
    by (simp_all add: salary_part_def dict_get_def plain_vacancy_def engineer_vacancy_def)
  have eng: "vacancies (store (snd (insert_vacancy engineer_vacancy 1 acme_world)))
             = [engineer_row]"
    by (simp add: insert_engineer)
  show ?thesis
    using stored_salary_defaults
            [of "\<lparr>v_id = 20, v_company_id = Some 1, v_name = Some ''Analyst'',
                  v_salary_from = Some 0, v_salary_to = Some 0, v_currency = Some ''RUR'',
                  v_url = Some ''http://acme/20''\<rparr>" plain_vacancy 1 acme_world]
      plain none parts eng
    by simp
qed

text \<open>
  The claim as stated fails on a value that is present and not null but falsy: an
  empty currency string is not stored as given, it is replaced by "RUR".
\<close>

definition blank_currency_vacancy :: pydict where
  "blank_currency_vacancy =
     [(''id'', PInt 21), (''name'', PStr ''Tester''), (''alternate_url'', PStr ''http://acme/21''),
      (''salary'', PDict [(''from'', PInt 1000), (''to'', PInt 2000), (''currency'', PStr [])])]"

theorem stored_salary_defaults_counterexample:
  "salary_part blank_currency_vacancy ''currency'' = PStr []
   \<and> vacancies (store (snd (insert_vacancy blank_currency_vacancy 1 acme_world)))
     = [\<lparr>v_id = 21, v_company_id = Some 1, v_name = Some ''Tester'', v_salary_from = Some 1000,
         v_salary_to = Some 2000, v_currency = Some ''RUR'', v_url = Some ''http://acme/21''\<rparr>]"
  by (simp add: eval_defs salary_part_def blank_currency_vacancy_def acme_world_def)

end
